theory Spec2Isabelle
  imports Main "HOL-Library.Sublist"
begin

section \<open>ATT&CK technique reports: the \<open>AttackTechnique\<close> base class\<close>

text \<open>
  A shallow embedding of \<^verbatim>\<open>monkey_island/cc/services/attack/technique_reports/__init__.py\<close>.
  The abstract properties of a technique class are the fields of a record, the collaborators
  the module imports (the ScanStatus enumeration, AttackConfig, the telemetry collection,
  AttackMitigations, the schema index) are the fields of an environment, a Python exception
  is the \<open>Inl\<close> branch of a sum, and the class attribute that caches the schema index is
  passed in and returned.
\<close>

subsection \<open>Data\<close>

text \<open>
  The members of \<^verbatim>\<open>common.utils.attack_utils.ScanStatus\<close>. The module only reads their
  \<^verbatim>\<open>.value\<close>, an integer that the environment supplies (\<open>scan_value\<close> below).
\<close>

datatype ScanStatus = UNSCANNED | SCANNED | USED | DISABLED

datatype error = KeyError string | Raised string

text \<open>
  The schema index: a dict from technique id to a dict from config type to the list of its
  field names. Python dicts iterate in insertion order, so both levels are association lists.
\<close>

type_synonym config_schema = "(string \<times> (string \<times> string list) list) list"

text \<open>The class attributes every technique overrides.\<close>

record AttackTechnique =
  unscanned_msg :: string
  scanned_msg :: string
  used_msg :: string
  tech_id :: string
  relevant_systems :: "string list"

text \<open>A telemetry document, with the three fields the module queries, and a query on them.\<close>

record telem =
  telem_category :: string
  data_status :: int
  data_technique :: string

record query =
  q_telem_category :: string
  q_data_status :: int
  q_data_technique :: string

text \<open>The values stored in a report entry (a Python dict with string keys).\<close>

datatype val = StrV string | IntV int | ListV "string list"

type_synonym entry = "string \<rightharpoonup> val"

text \<open>
  What the module imports and does not define:
  \<^item> \<open>scan_value\<close>: \<^verbatim>\<open>ScanStatus.X.value\<close>;
  \<^item> \<open>get_technique_values\<close>: the dict \<^verbatim>\<open>AttackConfig.get_technique_values()\<close>, from
    technique id to the boolean \<^verbatim>\<open>_is_enabled_in_config\<close> is annotated to return;
  \<^item> \<open>telemetry\<close>: the documents of \<^verbatim>\<open>mongo.db.telemetry\<close>, in the order \<^verbatim>\<open>find_one\<close>
    scans them;
  \<^item> \<open>get_technique_title\<close>: \<^verbatim>\<open>AttackConfig.get_technique(id)["title"]\<close>, which may raise;
  \<^item> \<open>get_mitigation_by_technique_id\<close>: the \<^verbatim>\<open>mitigations\<close> field of the document that
    \<^verbatim>\<open>AttackMitigations.get_mitigation_by_technique_id(id)\<close> returns, which may raise;
  \<^item> \<open>get_config_schema_per_attack_technique\<close>: the result of
    \<^verbatim>\<open>ConfigSchemaPerAttackTechnique().get_config_schema_per_attack_technique(SCHEMA)\<close>.
\<close>

record env =
  scan_value :: "ScanStatus \<Rightarrow> int"
  get_technique_values :: "string \<rightharpoonup> bool"
  telemetry :: "telem list"
  get_technique_title :: "string \<Rightarrow> error + string"
  get_mitigation_by_technique_id :: "string \<Rightarrow> error + string list"
  get_config_schema_per_attack_technique :: config_schema

subsection \<open>Strings\<close>

text \<open>\<^verbatim>\<open>s.strip(chars)\<close>: drops the leading and the trailing characters that are in \<open>chars\<close>.\<close>

definition strip :: "string \<Rightarrow> string \<Rightarrow> string" where
  "strip chars s =
     rev (dropWhile (\<lambda>c. c \<in> set chars) (rev (dropWhile (\<lambda>c. c \<in> set chars) s)))"

text \<open>\<^verbatim>\<open>sep.join(xs)\<close>.\<close>

fun join :: "string \<Rightarrow> string list \<Rightarrow> string" where
  "join sep [] = []"
| "join sep [x] = x"
| "join sep (x # y # ys) = x @ sep @ join sep (y # ys)"

text \<open>The line feed \<^verbatim>\<open>\n\<close>, and the em dash (U+2014) of the source in UTF-8.\<close>

definition newline :: string where
  "newline = [CHR 0x0A]"

definition em_dash :: string where
  "em_dash = [CHR 0xE2, CHR 0x80, CHR 0x94]"

definition disabled_msg :: string where
  "disabled_msg =
     ''This technique has been disabled. '' @
     ''You can enable it from the [configuration page](../../configure).''"

subsection \<open>Status resolution\<close>

text \<open>
  \<^verbatim>\<open>AttackConfig.get_technique_values()[cls.tech_id]\<close>: indexing a dict with a missing key
  raises \<^verbatim>\<open>KeyError\<close>.
\<close>

definition is_enabled_in_config :: "env \<Rightarrow> AttackTechnique \<Rightarrow> error + bool" where
  "is_enabled_in_config e cls =
     (case get_technique_values e (tech_id cls) of
        None \<Rightarrow> Inl (KeyError (tech_id cls))
      | Some b \<Rightarrow> Inr b)"

text \<open>
  \<^verbatim>\<open>collection.find_one(q)\<close>: the first document that matches every field of the query, or
  \<^verbatim>\<open>None\<close>. A document is a non-empty dict, so the \<^verbatim>\<open>elif\<close> tests of
  \<^verbatim>\<open>technique_status\<close> hold exactly when one is found.
\<close>

definition matches :: "query \<Rightarrow> telem \<Rightarrow> bool" where
  "matches q d \<longleftrightarrow>
     telem_category d = q_telem_category q \<and>
     data_status d = q_data_status q \<and>
     data_technique d = q_data_technique q"

definition find_one :: "telem list \<Rightarrow> query \<Rightarrow> telem option" where
  "find_one docs q = List.find (matches q) docs"

definition attack_query :: "env \<Rightarrow> AttackTechnique \<Rightarrow> ScanStatus \<Rightarrow> query" where
  "attack_query e cls s =
     \<lparr>q_telem_category = ''attack'',
      q_data_status = scan_value e s,
      q_data_technique = tech_id cls\<rparr>"

text \<open>
  \<^verbatim>\<open>technique_status\<close>. The second component is the list of queries sent to the telemetry
  collection, in the order they were sent.
\<close>

definition technique_status :: "env \<Rightarrow> AttackTechnique \<Rightarrow> (error + int) \<times> query list" where
  "technique_status e cls =
     (case is_enabled_in_config e cls of
        Inl err \<Rightarrow> (Inl err, [])
      | Inr enabled \<Rightarrow>
          if \<not> enabled then (Inr (scan_value e DISABLED), [])
          else if find_one (telemetry e) (attack_query e cls USED) \<noteq> None
          then (Inr (scan_value e USED), [attack_query e cls USED])
          else if find_one (telemetry e) (attack_query e cls SCANNED) \<noteq> None
          then (Inr (scan_value e SCANNED), [attack_query e cls USED, attack_query e cls SCANNED])
          else (Inr (scan_value e UNSCANNED),
                [attack_query e cls USED, attack_query e cls SCANNED]))"

subsection \<open>Message composition\<close>

text \<open>
  \<^verbatim>\<open>_get_relevant_config_values\<close> (Isabelle names cannot start with an underscore).
  \<^verbatim>\<open>schema[cls.tech_id]\<close> raises \<^verbatim>\<open>KeyError\<close> on a missing key; the loop visits the keys
  of the inner dict in order and reads each key's own value.
\<close>

definition config_option_line :: "string \<times> string list \<Rightarrow> string" where
  "config_option_line kv =
     ''- '' @ fst kv @ '' '' @ em_dash @ '' '' @ join '', '' (snd kv) @ ''<br/>''"

definition get_relevant_config_values :: "AttackTechnique \<Rightarrow> config_schema \<Rightarrow> error + string" where
  "get_relevant_config_values cls schema =
     (case map_of schema (tech_id cls) of
        None \<Rightarrow> Inl (KeyError (tech_id cls))
      | Some config_types \<Rightarrow> Inr (concat (map config_option_line config_types)))"

text \<open>The list \<^verbatim>\<open>reasons\<close> that \<^verbatim>\<open>_get_unscanned_msg_with_reasons\<close> builds.\<close>

definition system_reasons :: "AttackTechnique \<Rightarrow> string list" where
  "system_reasons cls =
     (if length (relevant_systems cls) = 1
      then [''- Monkey did not run on any '' @ relevant_systems cls ! 0 @ '' systems.'']
      else [])"

definition unscanned_reasons :: "AttackTechnique \<Rightarrow> config_schema \<Rightarrow> error + string list" where
  "unscanned_reasons cls schema =
     (if map_of schema (tech_id cls) \<noteq> None
      then (case get_relevant_config_values cls schema of
              Inl err \<Rightarrow> Inl err
            | Inr config_values \<Rightarrow>
                Inr (system_reasons cls @
                     [''- The following configuration options were disabled or empty:<br/>'' @
                      config_values]))
      else Inr (system_reasons cls))"

definition get_unscanned_msg_with_reasons ::
    "AttackTechnique \<Rightarrow> string \<Rightarrow> config_schema \<Rightarrow> error + string" where
  "get_unscanned_msg_with_reasons cls msg schema =
     (case unscanned_reasons cls schema of
        Inl err \<Rightarrow> Inl err
      | Inr reasons \<Rightarrow>
          if reasons \<noteq> []
          then Inr (strip ''.'' msg @ '' due to one of the following reasons:'' @ newline @
                    join newline reasons)
          else Inr msg)"

text \<open>
  The class attribute \<^verbatim>\<open>config_schema_per_attack_technique\<close> starts as \<^verbatim>\<open>None\<close>.
  \<^verbatim>\<open>get_message_by_status\<close> reads and assigns it through \<^verbatim>\<open>cls\<close>, the technique class
  the method is called on; the functions below take that class's attribute and return it
  as the call leaves it. The test \<^verbatim>\<open>if not cls.config_schema_per_attack_technique\<close> holds
  for \<^verbatim>\<open>None\<close> and for the empty dict.
\<close>

type_synonym cache = "config_schema option"

definition cached_schema :: "env \<Rightarrow> cache \<Rightarrow> config_schema" where
  "cached_schema e c =
     (case c of
        None \<Rightarrow> get_config_schema_per_attack_technique e
      | Some schema \<Rightarrow>
          if schema = [] then get_config_schema_per_attack_technique e else schema)"

text \<open>\<^verbatim>\<open>get_message_by_status\<close>: the message, and the class attribute after the call.\<close>

definition get_message_by_status ::
    "env \<Rightarrow> AttackTechnique \<Rightarrow> cache \<Rightarrow> int \<Rightarrow> (error + string) \<times> cache" where
  "get_message_by_status e cls c status =
     (if status = scan_value e DISABLED then (Inr disabled_msg, c)
      else if status = scan_value e UNSCANNED
      then (get_unscanned_msg_with_reasons cls (unscanned_msg cls) (cached_schema e c),
            Some (cached_schema e c))
      else if status = scan_value e SCANNED then (Inr (scanned_msg cls), c)
      else (Inr (used_msg cls), c))"

definition get_message_and_status ::
    "env \<Rightarrow> AttackTechnique \<Rightarrow> cache \<Rightarrow> int \<Rightarrow> (error + entry) \<times> cache" where
  "get_message_and_status e cls c status =
     (case get_message_by_status e cls c status of
        (Inl err, c') \<Rightarrow> (Inl err, c')
      | (Inr message, c') \<Rightarrow>
          (Inr [''message'' \<mapsto> StrV message, ''status'' \<mapsto> IntV status], c'))"

subsection \<open>Report entries\<close>

definition technique_title :: "env \<Rightarrow> AttackTechnique \<Rightarrow> error + string" where
  "technique_title e cls = get_technique_title e (tech_id cls)"

definition get_mitigation_by_status :: "env \<Rightarrow> AttackTechnique \<Rightarrow> int \<Rightarrow> error + entry" where
  "get_mitigation_by_status e cls status =
     (if status = scan_value e USED
      then (case get_mitigation_by_technique_id e (tech_id cls) of
              Inl err \<Rightarrow> Inl err
            | Inr mitigations \<Rightarrow> Inr [''mitigations'' \<mapsto> ListV mitigations])
      else Inr Map.empty)"

text \<open>
  \<^verbatim>\<open>get_tech_base_data\<close>: status, then title, then message (which may set the class
  attribute), then mitigations; \<^verbatim>\<open>data.update(d)\<close> is \<open>data ++ d\<close>.
\<close>

definition get_tech_base_data ::
    "env \<Rightarrow> AttackTechnique \<Rightarrow> cache \<Rightarrow> (error + entry) \<times> cache" where
  "get_tech_base_data e cls c =
     (case fst (technique_status e cls) of
        Inl err \<Rightarrow> (Inl err, c)
      | Inr status \<Rightarrow>
          (case technique_title e cls of
             Inl err \<Rightarrow> (Inl err, c)
           | Inr title \<Rightarrow>
               (case get_message_by_status e cls c status of
                  (Inl err, c') \<Rightarrow> (Inl err, c')
                | (Inr message, c') \<Rightarrow>
                    (case get_mitigation_by_status e cls status of
                       Inl err \<Rightarrow> (Inl err, c')
                     | Inr m \<Rightarrow>
                         (Inr ([''status'' \<mapsto> IntV status, ''title'' \<mapsto> StrV title,
                                ''message'' \<mapsto> StrV message] ++ m), c')))))"

text \<open>\<^verbatim>\<open>get_base_data_by_status\<close>: message and status, then title, then mitigations.\<close>

definition get_base_data_by_status ::
    "env \<Rightarrow> AttackTechnique \<Rightarrow> cache \<Rightarrow> int \<Rightarrow> (error + entry) \<times> cache" where
  "get_base_data_by_status e cls c status =
     (case get_message_and_status e cls c status of
        (Inl err, c') \<Rightarrow> (Inl err, c')
      | (Inr data, c') \<Rightarrow>
          (case technique_title e cls of
             Inl err \<Rightarrow> (Inl err, c')
           | Inr title \<Rightarrow>
               (case get_mitigation_by_status e cls status of
                  Inl err \<Rightarrow> (Inl err, c')
                | Inr m \<Rightarrow> (Inr (data ++ [''title'' \<mapsto> StrV title] ++ m), c'))))"

text \<open>
  \<^verbatim>\<open>is_status_disabled\<close> wraps a function that returns a status and its data; the argument
  here is what the wrapped function would return. The wrapper calls it only when the
  technique is enabled.
\<close>

definition is_status_disabled ::
    "env \<Rightarrow> AttackTechnique \<Rightarrow> error + int \<times> 'a list \<Rightarrow> error + int \<times> 'a list" where
  "is_status_disabled e cls get_technique_status_and_data =
     (case is_enabled_in_config e cls of
        Inl err \<Rightarrow> Inl err
      | Inr enabled \<Rightarrow>
          if \<not> enabled then Inr (scan_value e DISABLED, [])
          else get_technique_status_and_data)"

text \<open>Reading a key of the entry a builder returned (\<open>None\<close> when it raised).\<close>

definition entry_field :: "(error + entry) \<times> cache \<Rightarrow> string \<Rightarrow> val option" where
  "entry_field r k = (case fst r of Inl err \<Rightarrow> None | Inr data \<Rightarrow> data k)"

subsection \<open>A concrete installation\<close>

text \<open>
  The docstring of \<^verbatim>\<open>get_tech_base_data\<close> shows a used technique with \<^verbatim>\<open>'status': 2\<close>;
  the other three values are one choice of distinct integers.
\<close>

definition example_scan_value :: "ScanStatus \<Rightarrow> int" where
  "example_scan_value s = (case s of UNSCANNED \<Rightarrow> 0 | SCANNED \<Rightarrow> 1 | USED \<Rightarrow> 2 | DISABLED \<Rightarrow> 3)"

text \<open>A technique relevant to two systems, and one relevant to Linux only.\<close>

definition T1110 :: AttackTechnique where
  "T1110 =
     \<lparr>unscanned_msg = ''Monkey did not try to brute force.'',
      scanned_msg = ''Monkey tried to brute force.'',
      used_msg = ''Monkey brute forced a machine.'',
      tech_id = ''T1110'',
      relevant_systems = [''Linux'', ''Windows'']\<rparr>"

definition T1154 :: AttackTechnique where
  "T1154 =
     \<lparr>unscanned_msg = ''Monkey did not use the trap command.'',
      scanned_msg = ''Monkey tried to use the trap command.'',
      used_msg = ''Monkey used the trap command.'',
      tech_id = ''T1154'',
      relevant_systems = [''Linux'']\<rparr>"

definition T9999 :: AttackTechnique where
  "T9999 = T1154\<lparr>tech_id := ''T9999''\<rparr>"

definition example_telemetry :: "telem list" where
  "example_telemetry =
     [\<lparr>telem_category = ''attack'', data_status = 1, data_technique = ''T1110''\<rparr>,
      \<lparr>telem_category = ''attack'', data_status = 2, data_technique = ''T1110''\<rparr>,
      \<lparr>telem_category = ''attack'', data_status = 2, data_technique = ''T1154''\<rparr>]"

definition brute_force_schema :: config_schema where
  "brute_force_schema = [(''T1154'', [(''Brute force'', [''threads_count''])])]"

definition collectors_schema :: config_schema where
  "collectors_schema =
     [(''T1154'', [(''System info collectors'', [''Mimikatz collector'', ''Azure collector''])])]"

definition example_titles :: "string \<Rightarrow> error + string" where
  "example_titles i =
     (if i = ''T1110'' then Inr ''Brute force''
      else if i = ''T1154'' then Inr ''Trap''
      else Inl (Raised ''unknown technique''))"

definition example_mitigations :: "string \<Rightarrow> error + string list" where
  "example_mitigations i =
     (if i = ''T1110'' then Inr [''Account use policies'']
      else if i = ''T1154'' then Inr [''Restrict shell access'']
      else Inl (Raised ''no mitigation document''))"

definition example_env :: env where
  "example_env =
     \<lparr>scan_value = example_scan_value,
      get_technique_values = [''T1110'' \<mapsto> True, ''T1154'' \<mapsto> False],
      telemetry = example_telemetry,
      get_technique_title = example_titles,
      get_mitigation_by_technique_id = example_mitigations,
      get_config_schema_per_attack_technique = brute_force_schema\<rparr>"

text \<open>The same installation after its configuration changed.\<close>

definition reconfigured_env :: env where
  "reconfigured_env = example_env\<lparr>get_config_schema_per_attack_technique := collectors_schema\<rparr>"

section \<open>Status resolution\<close>

lemma find_one_Some:
  assumes "d \<in> set docs" and "matches q d"
  shows "find_one docs q \<noteq> None"
  using assms by (auto simp: find_one_def find_None_iff)

text \<open>
  C1. A technique whose enabled flag in the configuration is false resolves to the disabled
  status whatever the telemetry log holds, and no query is sent to the log.
\<close>

theorem technique_status_not_enabled:
  assumes "get_technique_values e (tech_id cls) = Some False"
  shows "technique_status (e\<lparr>telemetry := log\<rparr>) cls = (Inr (scan_value e DISABLED), [])"
  using assms by (simp add: technique_status_def is_enabled_in_config_def)

text \<open>T1154 is switched off and the log holds a used event for it: the status is still 3.\<close>

theorem technique_status_not_enabled_witness:
  "get_technique_values example_env (tech_id T1154) = Some False \<and>
   find_one example_telemetry (attack_query example_env T1154 USED) \<noteq> None \<and>
   technique_status (example_env\<lparr>telemetry := example_telemetry\<rparr>) T1154 = (Inr 3, [])"
proof -
  have off: "get_technique_values example_env (tech_id T1154) = Some False"
    by (simp add: example_env_def T1154_def)
  have logged: "find_one example_telemetry (attack_query example_env T1154 USED) \<noteq> None"
    by (simp add: find_one_def matches_def attack_query_def example_telemetry_def
        example_env_def example_scan_value_def T1154_def)
  have "scan_value example_env DISABLED = 3"
    by (simp add: example_env_def example_scan_value_def)
  with technique_status_not_enabled [OF off, of example_telemetry] off logged
  show ?thesis by simp
qed

text \<open>
  C2. An enabled technique with a used-level attack event in the log resolves to the used
  status, whatever else the log holds (a scanned-level event for the same technique
  included): the first query finds the event and the second is never sent.
\<close>

theorem technique_status_used:
  assumes "get_technique_values e (tech_id cls) = Some True"
    and "d \<in> set (telemetry e)"
    and "telem_category d = ''attack''"
    and "data_status d = scan_value e USED"
    and "data_technique d = tech_id cls"
  shows "technique_status e cls = (Inr (scan_value e USED), [attack_query e cls USED])"
proof -
  have "matches (attack_query e cls USED) d"
    using assms(3-5) by (simp add: matches_def attack_query_def)
  with assms(2) have "find_one (telemetry e) (attack_query e cls USED) \<noteq> None"
    by (rule find_one_Some)
  with assms(1) show ?thesis
    by (simp add: technique_status_def is_enabled_in_config_def)
qed

text \<open>The log of the example holds a scanned event for T1110 before its used event.\<close>

theorem technique_status_used_witness:
  "find_one (telemetry example_env) (attack_query example_env T1110 SCANNED) \<noteq> None \<and>
   fst (technique_status example_env T1110) = Inr 2"
proof -
  let ?d = "\<lparr>telem_category = ''attack'', data_status = 2, data_technique = ''T1110''\<rparr>"
  have on: "get_technique_values example_env (tech_id T1110) = Some True"
    by (simp add: example_env_def T1110_def)
  have logged: "?d \<in> set (telemetry example_env)"
    by (simp add: example_env_def example_telemetry_def)
  have scanned: "find_one (telemetry example_env) (attack_query example_env T1110 SCANNED) \<noteq> None"
    by (simp add: find_one_def matches_def attack_query_def example_telemetry_def
        example_env_def example_scan_value_def T1110_def)
  have used: "scan_value example_env USED = 2"
    by (simp add: example_env_def example_scan_value_def)
  have "technique_status example_env T1110 =
        (Inr (scan_value example_env USED), [attack_query example_env T1110 USED])"
    by (rule technique_status_used [OF on logged]) (simp_all add: used T1110_def)
  with scanned used show ?thesis by simp
qed

text \<open>
  C10. A technique whose identifier is not a key of the configuration's technique values
  makes status resolution raise \<^verbatim>\<open>KeyError\<close> from the enabled check; no status is returned
  and no query is sent to the log.
\<close>

theorem technique_status_missing_key:
  assumes "get_technique_values e (tech_id cls) = None"
  shows "technique_status e cls = (Inl (KeyError (tech_id cls)), [])"
  using assms by (simp add: technique_status_def is_enabled_in_config_def)

theorem technique_status_missing_key_witness:
  "get_technique_values example_env (tech_id T9999) = None \<and>
   technique_status example_env T9999 = (Inl (KeyError ''T9999''), [])"
proof -
  have absent: "get_technique_values example_env (tech_id T9999) = None"
    by (simp add: example_env_def T9999_def T1154_def)
  from technique_status_missing_key [OF absent] absent show ?thesis
    by (simp add: T9999_def T1154_def)
qed

section \<open>Message composition\<close>

subsection \<open>What \<^verbatim>\<open>strip\<close> removes\<close>

lemma rstrip_keeps_head:
  assumes "xs \<noteq> []" and "\<not> P (hd xs)"
  shows "rev (dropWhile P (rev xs)) \<noteq> [] \<and> hd (rev (dropWhile P (rev xs))) = hd xs"
proof (cases xs)
  case Nil
  with assms(1) show ?thesis by simp
next
  case (Cons x ys)
  with assms(2) have "\<not> P x" by simp
  then have "dropWhile P (rev ys @ [x]) = dropWhile P (rev ys) @ [x] \<or>
             dropWhile P (rev ys @ [x]) = [x]"
    by (simp add: dropWhile_append)
  with Cons \<open>\<not> P x\<close> show ?thesis by auto
qed

lemma strip_ends:
  "strip [c] s = [] \<or> (hd (strip [c] s) \<noteq> c \<and> last (strip [c] s) \<noteq> c)"
proof (cases "strip [c] s = []")
  case True
  then show ?thesis by simp
next
  case False
  let ?P = "\<lambda>x. x \<in> set [c]"
  let ?t = "dropWhile ?P s"
  let ?u = "dropWhile ?P (rev ?t)"
  from False have u: "?u \<noteq> []" by (simp add: strip_def)
  then have "\<not> ?P (hd ?u)" by (rule hd_dropWhile)
  with u have l: "last (strip [c] s) \<noteq> c" by (simp add: strip_def last_rev)
  have t: "?t \<noteq> []"
  proof
    assume empty: "?t = []"
    have "?u = []" unfolding empty by simp
    with u show False by (rule notE)
  qed
  then have nt: "\<not> ?P (hd ?t)" by (rule hd_dropWhile)
  have "hd (strip [c] s) = hd ?t"
    unfolding strip_def using rstrip_keeps_head [of "?t" "?P", OF t nt] by (rule conjunct2)
  with nt have "hd (strip [c] s) \<noteq> c" by simp
  with l show ?thesis by blast
qed

lemma strip_decompose:
  "\<exists>m n. s = replicate m c @ strip [c] s @ replicate n c"
proof -
  let ?P = "\<lambda>x. x \<in> set [c]"
  have tw: "takeWhile ?P xs = replicate (length (takeWhile ?P xs)) c" for xs
    by (induction xs) auto
  let ?t = "dropWhile ?P s"
  have "s = takeWhile ?P s @ ?t" by simp
  moreover have "rev ?t = takeWhile ?P (rev ?t) @ dropWhile ?P (rev ?t)" by simp
  then have "?t = rev (dropWhile ?P (rev ?t)) @ rev (takeWhile ?P (rev ?t))"
    by (metis rev_append rev_rev_ident)
  moreover have "rev (takeWhile ?P (rev ?t)) = replicate (length (takeWhile ?P (rev ?t))) c"
    using tw [of "rev ?t"] by (metis rev_replicate)
  ultimately have "s = replicate (length (takeWhile ?P s)) c @ strip [c] s @
      replicate (length (takeWhile ?P (rev ?t))) c"
    using tw [of s] by (simp add: strip_def)
  then show ?thesis by blast
qed

subsection \<open>The not-observed message\<close>

lemma unscanned_reasons_total:
  "unscanned_reasons cls schema =
     Inr (system_reasons cls @
          (case map_of schema (tech_id cls) of
             None \<Rightarrow> []
           | Some config_types \<Rightarrow>
               [''- The following configuration options were disabled or empty:<br/>'' @
                concat (map config_option_line config_types)]))"
  by (cases "map_of schema (tech_id cls)")
     (simp_all add: unscanned_reasons_def get_relevant_config_values_def)

lemma get_unscanned_msg_with_reasons_returns:
  "\<exists>m. get_unscanned_msg_with_reasons cls msg schema = Inr m"
  by (simp add: get_unscanned_msg_with_reasons_def unscanned_reasons_total)

lemma get_message_by_status_returns:
  "\<exists>m. fst (get_message_by_status e cls c status) = Inr m"
  using get_unscanned_msg_with_reasons_returns [of cls "unscanned_msg cls" "cached_schema e c"]
  by (auto simp: get_message_by_status_def)

lemma cached_schema_idem: "cached_schema e (Some (cached_schema e c)) = cached_schema e c"
  by (auto simp: cached_schema_def split: option.splits)

text \<open>
  C3, as the code has it. The base message loses every leading and every trailing period
  (\<^verbatim>\<open>strip(".")\<close> works on both ends); when at least one reason line is produced the
  message is the stripped base, then \<^verbatim>\<open>" due to one of the following reasons:"\<close> (a space
  and no colon before "due"), a newline, and the reason lines joined by newlines; when no
  reason line is produced it is the base message unchanged. The composition never raises.
\<close>

theorem unscanned_msg_with_reasons_composed:
  "(\<exists>m n. msg = replicate m CHR ''.'' @ strip ''.'' msg @ replicate n CHR ''.'') \<and>
   (strip ''.'' msg = [] \<or>
    hd (strip ''.'' msg) \<noteq> CHR ''.'' \<and> last (strip ''.'' msg) \<noteq> CHR ''.'') \<and>
   (\<exists>reasons.
      unscanned_reasons cls schema = Inr reasons \<and>
      get_unscanned_msg_with_reasons cls msg schema =
        Inr (if reasons = [] then msg
             else strip ''.'' msg @ '' due to one of the following reasons:'' @ newline @
                  join newline reasons))"
proof (intro conjI)
  show "\<exists>m n. msg = replicate m CHR ''.'' @ strip ''.'' msg @ replicate n CHR ''.''"
    by (rule strip_decompose)
  show "strip ''.'' msg = [] \<or>
        hd (strip ''.'' msg) \<noteq> CHR ''.'' \<and> last (strip ''.'' msg) \<noteq> CHR ''.''"
    by (rule strip_ends)
  obtain reasons where r: "unscanned_reasons cls schema = Inr reasons"
    using unscanned_reasons_total by blast
  then have "get_unscanned_msg_with_reasons cls msg schema =
        Inr (if reasons = [] then msg
             else strip ''.'' msg @ '' due to one of the following reasons:'' @ newline @
                  join newline reasons)"
    by (simp add: get_unscanned_msg_with_reasons_def)
  with r show "\<exists>reasons.
      unscanned_reasons cls schema = Inr reasons \<and>
      get_unscanned_msg_with_reasons cls msg schema =
        Inr (if reasons = [] then msg
             else strip ''.'' msg @ '' due to one of the following reasons:'' @ newline @
                  join newline reasons)"
    by blast
qed

lemmas compose_defs =
  get_unscanned_msg_with_reasons_def unscanned_reasons_def system_reasons_def
  get_relevant_config_values_def config_option_line_def strip_def newline_def em_dash_def

text \<open>
  A Linux-only technique gets one reason line, a technique relevant to two systems and absent
  from the schema index gets none.
\<close>

theorem unscanned_msg_with_reasons_composed_witness:
  "unscanned_reasons T1154 [] = Inr [''- Monkey did not run on any Linux systems.''] \<and>
   strip ''.'' ''..Not used.'' = ''Not used'' \<and>
   get_unscanned_msg_with_reasons T1154 ''..Not used.'' [] =
     Inr (''Not used due to one of the following reasons:'' @ newline @
          ''- Monkey did not run on any Linux systems.'') \<and>
   unscanned_reasons T1110 [] = Inr [] \<and>
   get_unscanned_msg_with_reasons T1110 ''Not used.'' [] = Inr ''Not used.''"
  using unscanned_msg_with_reasons_composed [of "''..Not used.''" T1154 "[]"]
    unscanned_msg_with_reasons_composed [of "''Not used.''" T1110 "[]"]
  by (simp add: compose_defs T1154_def T1110_def)

text \<open>
  C3 as the specification words it fails twice over. For the base message \<^verbatim>\<open>Not used.\<close>
  the composed text does not start with \<^verbatim>\<open>Not used: due to one of the following reasons:\<close>,
  and for the base message \<^verbatim>\<open>.Not used.\<close> the leading period is gone as well as the
  trailing one.
\<close>

theorem unscanned_msg_claimed_text_counterexample:
  "get_unscanned_msg_with_reasons T1154 ''Not used.'' [] =
     Inr (''Not used due to one of the following reasons:'' @ newline @
          ''- Monkey did not run on any Linux systems.'') \<and>
   \<not> prefix (''Not used'' @ '': due to one of the following reasons:'')
       (''Not used due to one of the following reasons:'' @ newline @
        ''- Monkey did not run on any Linux systems.'') \<and>
   get_unscanned_msg_with_reasons T1154 ''.Not used.'' [] =
     Inr (''Not used due to one of the following reasons:'' @ newline @
          ''- Monkey did not run on any Linux systems.'') \<and>
   \<not> prefix ''.Not used''
       (''Not used due to one of the following reasons:'' @ newline @
        ''- Monkey did not run on any Linux systems.'')"
  by (simp add: compose_defs T1154_def)

text \<open>
  C6. For a technique relevant to exactly one system whose identifier is a key of the schema
  index, the composed not-observed message ends with the line saying that Monkey did not run
  on any such system, a newline, and the line listing the disabled or empty configuration
  options, in this order.
\<close>

theorem unscanned_msg_os_line_before_config_line:
  assumes "relevant_systems cls = [os]"
    and "map_of schema (tech_id cls) = Some config_types"
  shows "\<exists>m. get_unscanned_msg_with_reasons cls msg schema = Inr m \<and>
           suffix (''- Monkey did not run on any '' @ os @ '' systems.'' @ newline @
                   ''- The following configuration options were disabled or empty:<br/>'' @
                   concat (map config_option_line config_types)) m"
proof -
  let ?os_line = "''- Monkey did not run on any '' @ os @ '' systems.''"
  let ?config_line = "''- The following configuration options were disabled or empty:<br/>'' @
                   concat (map config_option_line config_types)"
  have "unscanned_reasons cls schema = Inr [?os_line, ?config_line]"
    using assms by (simp add: unscanned_reasons_total system_reasons_def)
  then have "get_unscanned_msg_with_reasons cls msg schema =
      Inr ((strip ''.'' msg @ '' due to one of the following reasons:'' @ newline) @
           (?os_line @ newline @ ?config_line))"
    by (simp add: get_unscanned_msg_with_reasons_def)
  moreover have "suffix (''- Monkey did not run on any '' @ os @ '' systems.'' @ newline @
                   ?config_line)
      ((strip ''.'' msg @ '' due to one of the following reasons:'' @ newline) @
           (?os_line @ newline @ ?config_line))"
    by (simp add: suffix_def)
  ultimately show ?thesis by blast
qed

text \<open>T1154 is Linux only and the brute-force schema lists \<^verbatim>\<open>threads_count\<close> for it.\<close>

theorem unscanned_msg_os_line_before_config_line_witness:
  "relevant_systems T1154 = [''Linux''] \<and>
   map_of brute_force_schema (tech_id T1154) = Some [(''Brute force'', [''threads_count''])] \<and>
   (\<exists>m. get_unscanned_msg_with_reasons T1154 (unscanned_msg T1154) brute_force_schema = Inr m \<and>
        suffix (''- Monkey did not run on any Linux systems.'' @ newline @
                ''- The following configuration options were disabled or empty:<br/>'' @
                ''- Brute force '' @ em_dash @ '' threads_count<br/>'') m)"
proof -
  have one: "relevant_systems T1154 = [''Linux'']"
    by (simp add: T1154_def)
  have gated: "map_of brute_force_schema (tech_id T1154) =
      Some [(''Brute force'', [''threads_count''])]"
    by (simp add: brute_force_schema_def T1154_def)
  from unscanned_msg_os_line_before_config_line [OF one gated, of "unscanned_msg T1154"] one gated
  show ?thesis by (simp add: config_option_line_def)
qed

text \<open>
  C8. Calling \<^verbatim>\<open>get_message_by_status\<close> a second time, on the class attribute the first
  call left behind and with the same technique, status and schema, returns the same message.
\<close>

theorem get_message_by_status_twice:
  "fst (get_message_by_status e cls (snd (get_message_by_status e cls c status)) status) =
   fst (get_message_by_status e cls c status)"
  by (simp add: get_message_by_status_def cached_schema_idem)

text \<open>
  The first call for a not-observed technique fills the empty cache; the second call reads it.
\<close>

theorem get_message_by_status_twice_witness:
  "snd (get_message_by_status example_env T1154 None 0) = Some brute_force_schema \<and>
   fst (get_message_by_status example_env T1154 (Some brute_force_schema) 0) =
   fst (get_message_by_status example_env T1154 None 0)"
proof -
  have "snd (get_message_by_status example_env T1154 None 0) = Some brute_force_schema"
    by (simp add: get_message_by_status_def cached_schema_def example_env_def
        example_scan_value_def)
  with get_message_by_status_twice [of example_env T1154 None 0] show ?thesis by simp
qed

text \<open>
  C9. Every status that is none of the disabled, unscanned and scanned values, an integer
  outside the enumeration included, gets the used message; nothing is raised and the class
  attribute is untouched.
\<close>

theorem get_message_by_status_other:
  assumes "status \<noteq> scan_value e DISABLED"
    and "status \<noteq> scan_value e UNSCANNED"
    and "status \<noteq> scan_value e SCANNED"
  shows "get_message_by_status e cls c status = (Inr (used_msg cls), c)"
  using assms by (simp add: get_message_by_status_def)

text \<open>The status 42 is no member of the enumeration and gets the used message of T1110.\<close>

theorem get_message_by_status_other_witness:
  "(42::int) \<notin> {scan_value example_env DISABLED, scan_value example_env UNSCANNED,
      scan_value example_env SCANNED, scan_value example_env USED} \<and>
   get_message_by_status example_env T1110 None 42 =
     (Inr ''Monkey brute forced a machine.'', None)"
proof -
  have vals: "scan_value example_env DISABLED = 3" "scan_value example_env UNSCANNED = 0"
    "scan_value example_env SCANNED = 1" "scan_value example_env USED = 2"
    by (simp_all add: example_env_def example_scan_value_def)
  have "get_message_by_status example_env T1110 None 42 = (Inr (used_msg T1110), None)"
    by (rule get_message_by_status_other) (simp_all add: vals)
  then show ?thesis by (simp add: vals T1110_def)
qed

subsection \<open>The cached schema index\<close>

text \<open>
  C4, as the code has it. Nothing in the module resets the class attribute. A call fills it
  from the schema only when it composes a not-observed message and finds the attribute unset
  or empty; once the attribute holds a non-empty index every call leaves it as it is and
  composes the not-observed message from the stored index, whatever the schema of the current
  environment yields; a call for any other status never touches it.
\<close>

theorem schema_cache_never_invalidated:
  "(c = Some schema \<and> schema \<noteq> [] \<longrightarrow>
      snd (get_message_by_status e cls c status) = c \<and>
      (status = scan_value e UNSCANNED \<and> status \<noteq> scan_value e DISABLED \<longrightarrow>
         fst (get_message_by_status e cls c status) =
           get_unscanned_msg_with_reasons cls (unscanned_msg cls) schema)) \<and>
   ((c = None \<or> c = Some []) \<and> status = scan_value e UNSCANNED \<and>
    status \<noteq> scan_value e DISABLED \<longrightarrow>
      get_message_by_status e cls c status =
        (get_unscanned_msg_with_reasons cls (unscanned_msg cls)
           (get_config_schema_per_attack_technique e),
         Some (get_config_schema_per_attack_technique e))) \<and>
   (status \<noteq> scan_value e UNSCANNED \<or> status = scan_value e DISABLED \<longrightarrow>
      snd (get_message_by_status e cls c status) = c)"
  by (auto simp: get_message_by_status_def cached_schema_def)

text \<open>
  With the brute-force index cached and the collectors schema current, a not-observed and a
  scanned call both leave the brute-force index in place; from an unset cache the
  not-observed call stores the current schema.
\<close>

theorem schema_cache_never_invalidated_witness:
  "get_config_schema_per_attack_technique reconfigured_env = collectors_schema \<and>
   brute_force_schema \<noteq> [] \<and>
   snd (get_message_by_status reconfigured_env T1154 (Some brute_force_schema) 0) =
     Some brute_force_schema \<and>
   fst (get_message_by_status reconfigured_env T1154 (Some brute_force_schema) 0) =
     get_unscanned_msg_with_reasons T1154 (unscanned_msg T1154) brute_force_schema \<and>
   snd (get_message_by_status reconfigured_env T1154 None 0) = Some collectors_schema \<and>
   snd (get_message_by_status reconfigured_env T1154 (Some brute_force_schema) 1) =
     Some brute_force_schema"
proof -
  have vals: "scan_value reconfigured_env UNSCANNED = 0" "scan_value reconfigured_env DISABLED = 3"
    "get_config_schema_per_attack_technique reconfigured_env = collectors_schema"
    by (simp_all add: reconfigured_env_def example_env_def example_scan_value_def)
  have nonempty: "brute_force_schema \<noteq> []"
    by (simp add: brute_force_schema_def)
  from schema_cache_never_invalidated
         [of "Some brute_force_schema" brute_force_schema reconfigured_env T1154 0]
       schema_cache_never_invalidated [of None brute_force_schema reconfigured_env T1154 0]
       schema_cache_never_invalidated
         [of "Some brute_force_schema" brute_force_schema reconfigured_env T1154 1]
       vals nonempty
  show ?thesis by simp
qed

text \<open>
  C4 as the specification words it fails. A first request under the brute-force schema fills
  the cache. The configuration then changes to the collectors schema; the second request
  still composes its message from the brute-force index and leaves that index in the cache.
\<close>

theorem schema_cache_stale_counterexample:
  "get_message_by_status example_env T1154 None 0 =
     (Inr (''Monkey did not use the trap command due to one of the following reasons:'' @
           newline @ ''- Monkey did not run on any Linux systems.'' @ newline @
           ''- The following configuration options were disabled or empty:<br/>'' @
           ''- Brute force '' @ em_dash @ '' threads_count<br/>''),
      Some brute_force_schema) \<and>
   get_config_schema_per_attack_technique reconfigured_env = collectors_schema \<and>
   collectors_schema \<noteq> brute_force_schema \<and>
   get_message_by_status reconfigured_env T1154 (Some brute_force_schema) 0 =
     (Inr (''Monkey did not use the trap command due to one of the following reasons:'' @
           newline @ ''- Monkey did not run on any Linux systems.'' @ newline @
           ''- The following configuration options were disabled or empty:<br/>'' @
           ''- Brute force '' @ em_dash @ '' threads_count<br/>''),
      Some brute_force_schema)"
proof -
  have vals: "scan_value example_env UNSCANNED = 0" "scan_value example_env DISABLED = 3"
    "get_config_schema_per_attack_technique example_env = brute_force_schema"
    "scan_value reconfigured_env UNSCANNED = 0" "scan_value reconfigured_env DISABLED = 3"
    "get_config_schema_per_attack_technique reconfigured_env = collectors_schema"
    by (simp_all add: reconfigured_env_def example_env_def example_scan_value_def)
  have nonempty: "brute_force_schema \<noteq> []"
    by (simp add: brute_force_schema_def)
  have differ: "collectors_schema \<noteq> brute_force_schema"
    by (simp add: brute_force_schema_def collectors_schema_def)
  have msg: "get_unscanned_msg_with_reasons T1154 (unscanned_msg T1154) brute_force_schema =
     Inr (''Monkey did not use the trap command due to one of the following reasons:'' @
           newline @ ''- Monkey did not run on any Linux systems.'' @ newline @
           ''- The following configuration options were disabled or empty:<br/>'' @
           ''- Brute force '' @ em_dash @ '' threads_count<br/>'')"
    by (simp add: compose_defs T1154_def brute_force_schema_def)
  have first: "get_message_by_status example_env T1154 None 0 =
      (get_unscanned_msg_with_reasons T1154 (unscanned_msg T1154) brute_force_schema,
       Some brute_force_schema)"
    by (simp add: get_message_by_status_def cached_schema_def vals)
  have second: "get_message_by_status reconfigured_env T1154 (Some brute_force_schema) 0 =
      (get_unscanned_msg_with_reasons T1154 (unscanned_msg T1154) brute_force_schema,
       Some brute_force_schema)"
    using nonempty by (simp add: get_message_by_status_def cached_schema_def vals)
  show ?thesis
    unfolding first second msg using vals(6) differ by simp
qed

section \<open>Report entries\<close>

lemma get_mitigation_by_status_Inr:
  assumes "get_mitigation_by_status e cls status = Inr m"
  shows "(status = scan_value e USED \<and>
          (\<exists>ms. get_mitigation_by_technique_id e (tech_id cls) = Inr ms \<and>
                m = [''mitigations'' \<mapsto> ListV ms])) \<or>
         (status \<noteq> scan_value e USED \<and> m = Map.empty)"
  using assms by (auto simp: get_mitigation_by_status_def split: if_splits sum.splits)

lemma get_base_data_by_status_Inr:
  assumes "fst (get_base_data_by_status e cls c status) = Inr data"
  shows "\<exists>message title m.
           fst (get_message_by_status e cls c status) = Inr message \<and>
           technique_title e cls = Inr title \<and>
           get_mitigation_by_status e cls status = Inr m \<and>
           data = [''message'' \<mapsto> StrV message, ''status'' \<mapsto> IntV status] ++
                  [''title'' \<mapsto> StrV title] ++ m"
proof -
  obtain r c' where r: "get_message_by_status e cls c status = (r, c')"
    by (cases "get_message_by_status e cls c status")
  with assms show ?thesis
    by (auto simp: get_base_data_by_status_def get_message_and_status_def
        split: sum.splits)
qed


lemma get_base_data_by_status_returns:
  assumes "technique_title e cls = Inr title"
    and "get_mitigation_by_status e cls status = Inr m"
  shows "\<exists>data. fst (get_base_data_by_status e cls c status) = Inr data"
proof -
  obtain message where "fst (get_message_by_status e cls c status) = Inr message"
    using get_message_by_status_returns by blast
  then obtain c' where "get_message_by_status e cls c status = (Inr message, c')"
    by (cases "get_message_by_status e cls c status") simp
  with assms show ?thesis
    by (simp add: get_base_data_by_status_def get_message_and_status_def)
qed

lemmas example_defs =
  example_env_def example_scan_value_def example_titles_def example_mitigations_def
  example_telemetry_def T1110_def T1154_def

lemmas builder_defs =
  get_base_data_by_status_def get_tech_base_data_def get_message_and_status_def
  get_message_by_status_def get_mitigation_by_status_def technique_title_def
  technique_status_def is_enabled_in_config_def find_one_def matches_def attack_query_def
  entry_field_def



text \<open>
  C5, as the code has it. \<^verbatim>\<open>get_base_data_by_status\<close> never consults the configuration: the
  entry it returns carries the status the caller supplied, and it returns one whenever the
  title and the mitigation lookups succeed. The disabled short-circuit lives in the wrapper
  \<^verbatim>\<open>is_status_disabled\<close>: for a technique that is not enabled it returns the disabled status
  with empty data, whatever the wrapped function would have returned.
\<close>

theorem get_base_data_by_status_keeps_status:
  "(\<forall>data. fst (get_base_data_by_status e cls c status) = Inr data \<longrightarrow>
      data ''status'' = Some (IntV status)) \<and>
   (\<forall>title m. technique_title e cls = Inr title \<and>
      get_mitigation_by_status e cls status = Inr m \<longrightarrow>
      (\<exists>data. fst (get_base_data_by_status e cls c status) = Inr data)) \<and>
   (get_technique_values e (tech_id cls) = Some False \<longrightarrow>
      is_status_disabled e cls wrapped = Inr (scan_value e DISABLED, []))"
proof (intro conjI allI impI)
  fix data
  assume "fst (get_base_data_by_status e cls c status) = Inr data"
  from get_base_data_by_status_Inr [OF this] obtain message title m where
    m: "get_mitigation_by_status e cls status = Inr m" and
    data: "data = [''message'' \<mapsto> StrV message, ''status'' \<mapsto> IntV status] ++
                  [''title'' \<mapsto> StrV title] ++ m"
    by blast
  from get_mitigation_by_status_Inr [OF m] data
  show "data ''status'' = Some (IntV status)"
    by (auto simp: map_add_def)
next
  fix title m
  assume "technique_title e cls = Inr title \<and> get_mitigation_by_status e cls status = Inr m"
  then show "\<exists>data. fst (get_base_data_by_status e cls c status) = Inr data"
    using get_base_data_by_status_returns by blast
next
  assume "get_technique_values e (tech_id cls) = Some False"
  then show "is_status_disabled e cls wrapped = Inr (scan_value e DISABLED, [])"
    by (simp add: is_status_disabled_def is_enabled_in_config_def)
qed

text \<open>
  T1154 is not enabled: an entry built for it with the scanned status 1 has status 1, and the
  wrapper turns a wrapped result of status 1 into the disabled status 3 with no data.
\<close>

theorem get_base_data_by_status_keeps_status_witness:
  "get_technique_values example_env (tech_id T1154) = Some False \<and>
   technique_title example_env T1154 = Inr ''Trap'' \<and>
   get_mitigation_by_status example_env T1154 1 = Inr Map.empty \<and>
   entry_field (get_base_data_by_status example_env T1154 None 1) ''status'' = Some (IntV 1) \<and>
   is_status_disabled example_env T1154 (Inr (1, [''data''])) = Inr (3, [])"
  using get_base_data_by_status_keeps_status
    [of example_env T1154 None 1 "Inr (1, [''data''])"]
  by (simp add: builder_defs example_defs is_status_disabled_def)

text \<open>
  C5 as the specification words it fails: T1154 is not enabled, the caller supplies the used
  status 2, and the entry has status 2 and the used message, not the disabled status 3.
\<close>

theorem get_base_data_by_status_counterexample:
  "is_enabled_in_config example_env T1154 = Inr False \<and>
   scan_value example_env DISABLED = 3 \<and>
   entry_field (get_base_data_by_status example_env T1154 None 2) ''status'' = Some (IntV 2) \<and>
   entry_field (get_base_data_by_status example_env T1154 None 2) ''message'' =
     Some (StrV ''Monkey used the trap command.'')"
  by (simp add: builder_defs example_defs)

end
